theory Spec2Isabelle
  imports Complex_Main "HOL-Library.List_Lexorder"
begin

section \<open>JavaScript strings and the library functions the parser calls\<close>

text \<open>
  A JavaScript string is a sequence of UTF-16 code units.  The source file
  \<^verbatim>\<open>docs/list-yacht.js\<close> is UTF-8; its currency characters are kept as the code units
  the file really contains (see \<open>PRICE_PATTERNS\<close> below).
\<close>

type_synonym jsstring = "nat list"

definition str :: "string \<Rightarrow> jsstring" where
  "str s = map of_char s"

text \<open>Truthiness of a string value: only the empty string is falsy.\<close>

definition truthy :: "jsstring \<Rightarrow> bool" where
  "truthy s = (s \<noteq> [])"

text \<open>Truthiness of a value that may be \<open>undefined\<close> or \<open>null\<close>.\<close>

definition truthyOpt :: "jsstring option \<Rightarrow> bool" where
  "truthyOpt v = (case v of None \<Rightarrow> False | Some s \<Rightarrow> truthy s)"

text \<open>\<open>a || b\<close> on possibly absent strings.\<close>

definition orElse :: "jsstring option \<Rightarrow> jsstring option \<Rightarrow> jsstring option" where
  "orElse a b = (if truthyOpt a then a else b)"

definition startsWith :: "jsstring \<Rightarrow> jsstring \<Rightarrow> bool" where
  "startsWith s p = (take (length p) s = p)"

fun includes_js :: "jsstring \<Rightarrow> jsstring \<Rightarrow> bool" where
  "includes_js [] p = (p = [])"
| "includes_js (c # cs) p = (startsWith (c # cs) p \<or> includes_js cs p)"

text \<open>
  The characters matched by \<open>\s\<close> and removed by \<open>trim\<close>: ECMAScript WhiteSpace and
  LineTerminator.
\<close>

definition isSpace :: "nat \<Rightarrow> bool" where
  "isSpace c = (c = 9 \<or> c = 10 \<or> c = 11 \<or> c = 12 \<or> c = 13 \<or> c = 32 \<or> c = 160
     \<or> c = 5760 \<or> (8192 \<le> c \<and> c \<le> 8202) \<or> c = 8232 \<or> c = 8233 \<or> c = 8239
     \<or> c = 8287 \<or> c = 12288 \<or> c = 65279)"

definition isDigit :: "nat \<Rightarrow> bool" where
  "isDigit c = (48 \<le> c \<and> c \<le> 57)"

definition trim :: "jsstring \<Rightarrow> jsstring" where
  "trim s = rev (dropWhile isSpace (rev (dropWhile isSpace s)))"

text \<open>\<open>Math.round\<close>: the nearest integer, ties towards plus infinity.\<close>

definition Math_round :: "real \<Rightarrow> int" where
  "Math_round x = \<lfloor>x + 1 / 2\<rfloor>"

text \<open>
  Library functions whose tables are not part of the program are parameters of the
  model: \<open>String.prototype.toLowerCase\<close>, the conversion of a number to a string in a
  template literal, and the \<open>URL\<close> constructor (which throws a \<open>TypeError\<close> on an
  address it cannot parse).
\<close>

datatype exn = TypeError

record url_obj =
  protocol :: jsstring
  origin :: jsstring
  href :: jsstring

record jslib =
  toLowerCase :: "jsstring \<Rightarrow> jsstring"
  numberToString :: "real \<Rightarrow> jsstring"
  newURL :: "jsstring \<Rightarrow> jsstring option \<Rightarrow> exn + url_obj"

section \<open>Configuration\<close>

definition MIN_LISTING_CONFIDENCE :: int where "MIN_LISTING_CONFIDENCE = 40"
definition MIN_YACHT_KEYWORDS :: nat where "MIN_YACHT_KEYWORDS = 3"
definition MIN_YACHT_PRICE :: real where "MIN_YACHT_PRICE = 5000"
definition MAX_YACHT_PRICE :: real where "MAX_YACHT_PRICE = 100000000"
definition MIN_IMAGE_WIDTH :: int where "MIN_IMAGE_WIDTH = 200"
definition MIN_IMAGE_HEIGHT :: int where "MIN_IMAGE_HEIGHT = 150"

section \<open>The listing record\<close>

record confidence =
  overall :: int
  conf_title :: int
  conf_price :: int
  conf_images :: int
  conf_specs :: int

record issue =
  field :: jsstring
  severity :: jsstring
  message :: jsstring

text \<open>
  \<open>priceRaw\<close> is a number or \<open>null\<close>; \<open>detailUrl\<close> is not set by \<open>createEmptyYacht\<close>
  and stays \<open>undefined\<close> (\<open>None\<close>) until an extractor assigns it.
\<close>

record yacht =
  id_y :: jsstring
  title :: jsstring
  price :: jsstring
  priceRaw :: "real option"
  year :: jsstring
  length_y :: jsstring
  lengthUnit :: jsstring
  type_y :: jsstring
  make_y :: jsstring
  model :: jsstring
  location :: jsstring
  description :: jsstring
  images :: "jsstring list"
  sourceUrl :: jsstring
  source :: jsstring
  confidence :: confidence
  issues :: "issue list"
  detailUrl :: "jsstring option"

text \<open>Decimal digits of a natural number, as \<open>${n}\<close> prints a non-negative integer.\<close>

function natToString :: "nat \<Rightarrow> jsstring" where
  "natToString n = (if n < 10 then [48 + n] else natToString (n div 10) @ [48 + n mod 10])"
  by pat_completeness auto
termination
  by (relation "measure id") auto

declare natToString.simps [simp del]

text \<open>
  \<open>createEmptyYacht(index = 0)\<close>; \<open>now\<close> is the value \<open>Date.now()\<close> returns at the call.
\<close>

definition createEmptyYacht :: "nat \<Rightarrow> nat \<Rightarrow> yacht" where
  "createEmptyYacht now index =
     \<lparr> id_y = str ''yacht-'' @ natToString now @ str ''-'' @ natToString index,
       title = [], price = [], priceRaw = None, year = [], length_y = [],
       lengthUnit = str ''ft'', type_y = [], make_y = [], model = [], location = [],
       description = [], images = [], sourceUrl = [], source = str ''generic'',
       confidence = \<lparr> overall = 50, conf_title = 0, conf_price = 0, conf_images = 0,
                       conf_specs = 0 \<rparr>,
       issues = [], detailUrl = None \<rparr>"

section \<open>Scoring, validation, deduplication\<close>

text \<open>\<open>yacht.priceRaw && yacht.priceRaw > 0\<close>.\<close>

definition hasPositivePrice :: "yacht \<Rightarrow> bool" where
  "hasPositivePrice y = (case priceRaw y of None \<Rightarrow> False | Some p \<Rightarrow> p \<noteq> 0 \<and> p > 0)"

text \<open>
  \<open>calculateConfidence\<close>; \<open>addIf c n score\<close> is \<open>if (c) { score += n; }\<close>.  The quotient \<open>score / maxScore\<close> is taken over the reals; the
  double-precision result differs from it by far less than one half, so \<open>Math.round\<close>
  returns the same integer.
\<close>

definition addIf :: "bool \<Rightarrow> int \<Rightarrow> int \<Rightarrow> int" where
  "addIf c n score = (if c then score + n else score)"

definition calculateConfidence :: "yacht \<Rightarrow> int" where
  "calculateConfidence y =
     (let score = (0::int); maxScore = (0::int);
          score = addIf (truthy (title y)) 35 score; maxScore = maxScore + 35;
          score = addIf (length (images y) > 0) 25 score; maxScore = maxScore + 25;
          score = addIf (hasPositivePrice y) 15 score; maxScore = maxScore + 15;
          score = addIf (truthy (year y)) 10 score; maxScore = maxScore + 10;
          score = addIf (truthy (length_y y)) 5 score; maxScore = maxScore + 5;
          score = addIf (truthy (type_y y)) 5 score; maxScore = maxScore + 5;
          score = addIf (truthy (location y)) 5 score; maxScore = maxScore + 5;
          score = addIf (source y = str ''json-ld'' \<or> source y = str ''microdata''
                           \<or> source y = str ''red-ensign'') 10 score
      in Math_round ((real_of_int score / real_of_int maxScore) * 100))"

definition mkIssue :: "string \<Rightarrow> string \<Rightarrow> string \<Rightarrow> issue" where
  "mkIssue f s m = \<lparr> field = str f, severity = str s, message = str m \<rparr>"

definition validateYacht :: "yacht \<Rightarrow> issue list" where
  "validateYacht y =
     (if \<not> truthy (title y) then [mkIssue ''title'' ''error'' ''Missing title''] else [])
   @ (if \<not> truthy (price y) then [mkIssue ''price'' ''error'' ''Missing price'']
      else if price y = str ''See Details'' \<or> price y = str ''POA'' \<or> priceRaw y = Some 0
      then [mkIssue ''price'' ''warning'' ''Price not shown'']
      else [])
   @ (if length (images y) = 0 then [mkIssue ''images'' ''warning'' ''No images''] else [])
   @ (if \<not> truthy (year y) then [mkIssue ''year'' ''warning'' ''Missing year''] else [])
   @ (if \<not> truthy (length_y y) then [mkIssue ''length'' ''warning'' ''Missing length''] else [])
   @ (if \<not> truthy (type_y y) then [mkIssue ''type'' ''warning'' ''Missing type''] else [])
   @ (if \<not> truthy (location y) then [mkIssue ''location'' ''warning'' ''Missing location'']
      else [])"

text \<open>
  The fallback key of \<open>deduplicateYachts\<close>:
  \<^verbatim>\<open>`${(yacht.title || '').toLowerCase().trim()}|${yacht.priceRaw || 0}`\<close>.
\<close>

definition priceOrZero :: "yacht \<Rightarrow> real" where
  "priceOrZero y = (case priceRaw y of None \<Rightarrow> 0 | Some p \<Rightarrow> p)"

definition titleKey :: "jslib \<Rightarrow> yacht \<Rightarrow> jsstring" where
  "titleKey lib y =
     trim (toLowerCase lib (title y)) @ str ''|'' @ numberToString lib (priceOrZero y)"

text \<open>
  The \<open>filter\<close> callback of \<open>deduplicateYachts\<close> reads and extends the two sets
  \<open>seenUrls\<close> and \<open>seenTitles\<close>; the loop passes them along.
\<close>

fun dedupFilter :: "jslib \<Rightarrow> jsstring set \<Rightarrow> jsstring set \<Rightarrow> yacht list \<Rightarrow> yacht list" where
  "dedupFilter lib seenUrls seenTitles [] = []"
| "dedupFilter lib seenUrls seenTitles (y # ys) =
     (if truthyOpt (detailUrl y) then
        (if the (detailUrl y) \<in> seenUrls then dedupFilter lib seenUrls seenTitles ys
         else y # dedupFilter lib (insert (the (detailUrl y)) seenUrls) seenTitles ys)
      else
        (let key = titleKey lib y in
         if key \<in> seenTitles then dedupFilter lib seenUrls seenTitles ys
         else y # dedupFilter lib seenUrls (insert key seenTitles) ys))"

definition deduplicateYachts :: "jslib \<Rightarrow> yacht list \<Rightarrow> yacht list" where
  "deduplicateYachts lib yachts = dedupFilter lib {} {} yachts"

text \<open>
  The key under which a record is remembered: its detail address in \<open>seenUrls\<close>
  (\<open>Inl\<close>), or its title and price key in \<open>seenTitles\<close> (\<open>Inr\<close>).
\<close>

definition yachtKey :: "jslib \<Rightarrow> yacht \<Rightarrow> jsstring + jsstring" where
  "yachtKey lib y =
     (if truthyOpt (detailUrl y) then Inl (the (detailUrl y)) else Inr (titleKey lib y))"

section \<open>Address resolution\<close>

text \<open>
  \<open>resolveUrl\<close> with its \<open>try\<close>/\<open>catch\<close>: a computation either raises (\<open>Inl\<close>) or returns
  (\<open>Inr\<close>).  The argument \<open>url\<close> is a string or absent (\<open>undefined\<close>/\<open>null\<close>), as every
  caller passes an element attribute or a regular-expression capture.
\<close>

definition bindE :: "exn + 'a \<Rightarrow> ('a \<Rightarrow> exn + 'b) \<Rightarrow> exn + 'b" where
  "bindE m f = (case m of Inl e \<Rightarrow> Inl e | Inr v \<Rightarrow> f v)"

definition tryCatch :: "exn + 'a \<Rightarrow> (exn \<Rightarrow> exn + 'a) \<Rightarrow> exn + 'a" where
  "tryCatch body handler = (case body of Inl e \<Rightarrow> handler e | Inr v \<Rightarrow> Inr v)"

definition resolveUrl :: "jslib \<Rightarrow> jsstring option \<Rightarrow> jsstring \<Rightarrow> exn + jsstring option" where
  "resolveUrl lib url baseUrl =
     (if \<not> truthyOpt url then Inr None
      else if startsWith (the url) (str ''data:'') then Inr None
      else if startsWith (the url) (str ''http'') then Inr url
      else tryCatch
        (bindE (newURL lib baseUrl None) (\<lambda>base.
           if startsWith (the url) (str ''//'') then Inr (Some (protocol base @ the url))
           else if startsWith (the url) (str ''/'') then Inr (Some (origin base @ the url))
           else bindE (newURL lib (the url) (Some baseUrl)) (\<lambda>r. Inr (Some (href r)))))
        (\<lambda>e. Inr None))"

section \<open>Regular expressions\<close>

text \<open>
  The patterns of the program are values of \<open>rx\<close>, and \<open>m\<close> is the backtracking matcher
  of ECMAScript: it lists the states in which a pattern can end from a given state, in
  the order in which backtracking tries them (a greedy star tries one more repetition
  before it stops, a lazy one stops first; a repetition that consumes nothing is not
  repeated).  \<open>search\<close> is \<open>String.prototype.match\<close> for a pattern without the \<open>g\<close> flag:
  the first match at the leftmost position where there is one.
\<close>

datatype rx =
    Cls "nat \<Rightarrow> bool"
  | Eps
  | Seq rx rx
  | Alt rx rx
  | Star rx
  | LazyStar rx
  | Grp nat rx
  | WordB
  | Bol
  | Eol

datatype mstate = MState (behind: "nat option") (ahead: jsstring) (caps: "(nat \<times> jsstring) list")

definition isWordChar :: "nat \<Rightarrow> bool" where
  "isWordChar c = ((48 \<le> c \<and> c \<le> 57) \<or> (65 \<le> c \<and> c \<le> 90) \<or> (97 \<le> c \<and> c \<le> 122) \<or> c = 95)"

definition wordBefore :: "mstate \<Rightarrow> bool" where
  "wordBefore s = (case behind s of None \<Rightarrow> False | Some c \<Rightarrow> isWordChar c)"

definition wordAfter :: "mstate \<Rightarrow> bool" where
  "wordAfter s = (case ahead s of [] \<Rightarrow> False | c # cs \<Rightarrow> isWordChar c)"

function m :: "rx \<Rightarrow> mstate \<Rightarrow> mstate list" where
  "m (Cls p) s =
     (case ahead s of [] \<Rightarrow> [] | c # cs \<Rightarrow> if p c then [MState (Some c) cs (caps s)] else [])"
| "m Eps s = [s]"
| "m (Seq a b) s = concat (map (m b) (m a s))"
| "m (Alt a b) s = m a s @ m b s"
| "m (Star r) s =
     concat (map (\<lambda>t. if length (ahead t) < length (ahead s) then m (Star r) t else []) (m r s))
     @ [s]"
| "m (LazyStar r) s =
     s # concat (map (\<lambda>t. if length (ahead t) < length (ahead s) then m (LazyStar r) t else [])
                  (m r s))"
| "m (Grp n r) s =
     map (\<lambda>t. MState (behind t) (ahead t)
                ((n, take (length (ahead s) - length (ahead t)) (ahead s)) # caps t)) (m r s)"
| "m WordB s = (if wordBefore s \<noteq> wordAfter s then [s] else [])"
| "m Bol s = (if behind s = None then [s] else [])"
| "m Eol s = (if ahead s = [] then [s] else [])"
  by pat_completeness auto
termination
  by (relation "inv_image (less_than <*lex*> less_than) (\<lambda>(r, s). (size r, length (ahead s)))")
     auto

record rmatch =
  whole :: jsstring
  groups :: "(nat \<times> jsstring) list"

fun search :: "rx \<Rightarrow> nat option \<Rightarrow> jsstring \<Rightarrow> rmatch option" where
  "search r p [] =
     (case m r (MState p [] []) of
        [] \<Rightarrow> None
      | t # _ \<Rightarrow> Some \<lparr> whole = [], groups = caps t \<rparr>)"
| "search r p (c # cs) =
     (case m r (MState p (c # cs) []) of
        [] \<Rightarrow> search r (Some c) cs
      | t # _ \<Rightarrow> Some \<lparr> whole = take (length (c # cs) - length (ahead t)) (c # cs),
                         groups = caps t \<rparr>)"

text \<open>\<open>text.match(re)\<close> and \<open>re.test(text)\<close>.\<close>

definition match :: "jsstring \<Rightarrow> rx \<Rightarrow> rmatch option" where
  "match txt r = search r None txt"

definition test :: "rx \<Rightarrow> jsstring \<Rightarrow> bool" where
  "test r txt = (search r None txt \<noteq> None)"

text \<open>
  \<open>match[n]\<close> for a group that took part in the match (in the patterns below group 1
  always does).
\<close>

definition group :: "nat \<Rightarrow> rmatch \<Rightarrow> jsstring" where
  "group n mt = (case map_of (groups mt) n of None \<Rightarrow> [] | Some g \<Rightarrow> g)"

text \<open>
  Pattern syntax.  Under the \<open>i\<close> flag two code units match when \<open>Canonicalize\<close> maps
  them to the same code unit; \<open>canon\<close> is that function on the letters used in the
  patterns of this program: the ASCII letters and U+00C7, whose lower-case form is
  U+00E7.  No other code unit is mapped to one of these.
\<close>

definition canon :: "nat \<Rightarrow> nat" where
  "canon c = (if 97 \<le> c \<and> c \<le> 122 then c - 32 else if c = 231 then 199 else c)"

definition seqs :: "rx list \<Rightarrow> rx" where
  "seqs rs = foldr Seq rs Eps"

definition alts :: "rx list \<Rightarrow> rx" where
  "alts rs = foldr Alt (butlast rs) (last rs)"

definition plus :: "rx \<Rightarrow> rx" where
  "plus r = Seq r (Star r)"

definition lazyPlus :: "rx \<Rightarrow> rx" where
  "lazyPlus r = Seq r (LazyStar r)"

definition opt :: "rx \<Rightarrow> rx" where
  "opt r = Alt r Eps"

definition ch :: "nat \<Rightarrow> rx" where
  "ch c = Cls (\<lambda>x. x = c)"

definition chI :: "nat \<Rightarrow> rx" where
  "chI c = Cls (\<lambda>x. canon x = canon c)"

definition lit :: "string \<Rightarrow> rx" where
  "lit s = seqs (map ch (str s))"

definition litI :: "string \<Rightarrow> rx" where
  "litI s = seqs (map chI (str s))"

definition digit :: rx where
  "digit = Cls isDigit"

definition space :: rx where
  "space = Cls isSpace"

definition range :: "nat \<Rightarrow> nat \<Rightarrow> rx" where
  "range lo hi = Cls (\<lambda>c. lo \<le> c \<and> c \<le> hi)"

definition isUpper :: "nat \<Rightarrow> bool" where
  "isUpper c = (65 \<le> c \<and> c \<le> 90)"

definition isLower :: "nat \<Rightarrow> bool" where
  "isLower c = (97 \<le> c \<and> c \<le> 122)"

section \<open>Numbers\<close>

definition digitsVal :: "jsstring \<Rightarrow> nat" where
  "digitsVal ds = foldl (\<lambda>a c. 10 * a + (c - 48)) 0 ds"

text \<open>
  \<open>parseFloat\<close> on the strings this program passes to it, which consist of digits and
  dots only: the longest prefix of the form digits, optional dot, digits; \<open>None\<close> is
  \<open>NaN\<close>.  The value is the exact decimal; rounding to a double is not modelled.
\<close>

definition parseFloat :: "jsstring \<Rightarrow> real option" where
  "parseFloat s =
     (let ip = takeWhile isDigit s; r = dropWhile isDigit s in
      case r of
        c # fr \<Rightarrow>
          if c = 46 then
            (let fp = takeWhile isDigit fr in
             if ip = [] \<and> fp = [] then None
             else Some (real (digitsVal ip) + real (digitsVal fp) / 10 ^ length fp))
          else if ip = [] then None else Some (real (digitsVal ip))
      | [] \<Rightarrow> if ip = [] then None else Some (real (digitsVal ip)))"

text \<open>
  \<open>parseInt\<close> with no radix: leading white space, an optional sign, then hexadecimal
  digits after \<open>0x\<close> or decimal digits; \<open>None\<close> is \<open>NaN\<close>.  An absent attribute
  (\<open>getAttribute\<close> returned null) gives \<open>NaN\<close>.
\<close>

definition isHexDigit :: "nat \<Rightarrow> bool" where
  "isHexDigit c = (isDigit c \<or> (65 \<le> c \<and> c \<le> 70) \<or> (97 \<le> c \<and> c \<le> 102))"

definition hexVal :: "jsstring \<Rightarrow> nat" where
  "hexVal ds = foldl (\<lambda>a c. 16 * a + (if isDigit c then c - 48 else if c \<le> 70 then c - 55
                                        else c - 87)) 0 ds"

definition parseUnsigned :: "jsstring \<Rightarrow> int option" where
  "parseUnsigned s =
     (if startsWith s (str ''0x'') \<or> startsWith s (str ''0X'') then
        (let ds = takeWhile isHexDigit (drop 2 s) in
         if ds = [] then None else Some (int (hexVal ds)))
      else
        (let ds = takeWhile isDigit s in
         if ds = [] then None else Some (int (digitsVal ds))))"

definition parseInt :: "jsstring option \<Rightarrow> int option" where
  "parseInt v =
     (case v of
        None \<Rightarrow> None
      | Some s \<Rightarrow>
          (case dropWhile isSpace s of
             [] \<Rightarrow> None
           | c # cs \<Rightarrow>
               if c = 45 then map_option uminus (parseUnsigned cs)
               else if c = 43 then parseUnsigned cs
               else parseUnsigned (c # cs)))"

section \<open>Price extraction\<close>

text \<open>
  \<open>PRICE_PATTERNS\<close>.  In \<^verbatim>\<open>docs/list-yacht.js\<close> the euro patterns are written with the
  three characters U+201A U+00C7 U+00A8 and the pound patterns with the two characters
  U+00AC U+00A3; a \<open>?\<close> after them applies to the last one only.  In source order:
  \<^verbatim>\<open>/\$\s*([\d,]+(?:\.\d{2})?)\s*(?:USD|usd)?/\<close>,
  \<^verbatim>\<open>/USD\s*\$?\s*([\d,]+)/i\<close>,
  \<^verbatim>\<open>/([\d,]+)\s*(?:USD|dollars?)/i\<close>,
  \<^verbatim>\<open>/\u201A\u00C7\u00A8\s*([\d,.\s]+)/\<close>,
  \<^verbatim>\<open>/EUR\s*\u201A\u00C7\u00A8?\s*([\d,.\s]+)/i\<close>,
  \<^verbatim>\<open>/([\d,.\s]+)\s*(?:EUR|euros?)/i\<close>,
  \<^verbatim>\<open>/\u00AC\u00A3\s*([\d,]+)/\<close>,
  \<^verbatim>\<open>/GBP\s*\u00AC\u00A3?\s*([\d,]+)/i\<close>,
  \<^verbatim>\<open>/(?:price|asking)[:\s]*\$?\s*([\d,]+)/i\<close>.
\<close>

definition digitComma :: rx where
  "digitComma = Cls (\<lambda>c. isDigit c \<or> c = 44)"

definition euroNumber :: rx where
  "euroNumber = Cls (\<lambda>c. isDigit c \<or> c = 44 \<or> c = 46 \<or> isSpace c)"

definition USD :: jsstring where "USD = str ''USD''"
definition EUR :: jsstring where "EUR = str ''EUR''"
definition GBP :: jsstring where "GBP = str ''GBP''"

definition PRICE_PATTERNS :: "(rx \<times> jsstring) list" where
  "PRICE_PATTERNS =
     [ (seqs [ch 36, Star space,
              Grp 1 (Seq (plus digitComma) (opt (seqs [ch 46, digit, digit]))),
              Star space, opt (Alt (lit ''USD'') (lit ''usd''))], USD),
       (seqs [litI ''USD'', Star space, opt (ch 36), Star space, Grp 1 (plus digitComma)], USD),
       (seqs [Grp 1 (plus digitComma), Star space,
              Alt (litI ''USD'') (Seq (litI ''dollar'') (opt (chI 115)))], USD),
       (seqs [ch 8218, ch 199, ch 168, Star space, Grp 1 (plus euroNumber)], EUR),
       (seqs [litI ''EUR'', Star space, ch 8218, chI 199, opt (ch 168), Star space,
              Grp 1 (plus euroNumber)], EUR),
       (seqs [Grp 1 (plus euroNumber), Star space,
              Alt (litI ''EUR'') (Seq (litI ''euro'') (opt (chI 115)))], EUR),
       (seqs [ch 172, ch 163, Star space, Grp 1 (plus digitComma)], GBP),
       (seqs [litI ''GBP'', Star space, ch 172, opt (ch 163), Star space,
              Grp 1 (plus digitComma)], GBP),
       (seqs [Alt (litI ''price'') (litI ''asking''), Star (Cls (\<lambda>c. c = 58 \<or> isSpace c)),
              opt (ch 36), Star space, Grp 1 (plus digitComma)], USD) ]"

text \<open>
  \<open>num.toLocaleString('en-US', { maximumFractionDigits: 0 })\<close>: the number rounded to
  an integer (halves away from zero), its digits in groups of three.
\<close>

fun groupThousands :: "jsstring \<Rightarrow> jsstring" where
  "groupThousands ds =
     (if length ds \<le> 3 then ds
      else groupThousands (take (length ds - 3) ds) @ [44] @ drop (length ds - 3) ds)"

declare groupThousands.simps [simp del]

definition toLocaleString0 :: "real \<Rightarrow> jsstring" where
  "toLocaleString0 x =
     (if x < 0 then str ''-'' @ groupThousands (natToString (nat \<lfloor>- x + 1 / 2\<rfloor>))
      else groupThousands (natToString (nat \<lfloor>x + 1 / 2\<rfloor>)))"

text \<open>\<open>formatPrice(num, currency = 'USD')\<close> for a number \<open>num\<close>.\<close>

definition formatPrice :: "real \<Rightarrow> jsstring \<Rightarrow> jsstring" where
  "formatPrice num cur =
     (if num = 0 then []
      else (if cur = USD then [36]
            else if cur = EUR then [8218, 199, 168]
            else if cur = GBP then [172, 163]
            else [36]) @ toLocaleString0 num)"

record priceData =
  raw :: "real option"
  formatted :: jsstring
  currency :: "jsstring option"

fun extractPriceFrom :: "(rx \<times> jsstring) list \<Rightarrow> jsstring \<Rightarrow> priceData" where
  "extractPriceFrom [] txt = \<lparr> raw = None, formatted = [], currency = None \<rparr>"
| "extractPriceFrom (pattern # patterns) txt =
     (case match txt (fst pattern) of
        None \<Rightarrow> extractPriceFrom patterns txt
      | Some mt \<Rightarrow>
          (let numStr = filter (\<lambda>c. c \<noteq> 44) (filter (\<lambda>c. \<not> isSpace c) (group 1 mt));
               numStr = (if 46 \<in> set numStr
                            \<and> int (length (takeWhile (\<lambda>c. c \<noteq> 46) numStr)) < int (length numStr) - 3
                         then filter (\<lambda>c. c \<noteq> 46) numStr else numStr)
           in case parseFloat numStr of
                None \<Rightarrow> extractPriceFrom patterns txt
              | Some v \<Rightarrow>
                  if v \<ge> 1000
                  then \<lparr> raw = Some v, formatted = formatPrice v (snd pattern),
                         currency = Some (snd pattern) \<rparr>
                  else extractPriceFrom patterns txt))"

definition extractPrice :: "jsstring \<Rightarrow> priceData" where
  "extractPrice txt = extractPriceFrom PRICE_PATTERNS txt"

section \<open>Text and image helpers\<close>

text \<open>
  \<open>cleanText\<close>: \<^verbatim>\<open>(text || '').replace(/\s+/g, ' ').replace(/[\n\r\t]/g, ' ').trim()\<close>.
\<close>

function collapseSpaces :: "jsstring \<Rightarrow> jsstring" where
  "collapseSpaces [] = []"
| "collapseSpaces (c # cs) =
     (if isSpace c then 32 # collapseSpaces (dropWhile isSpace cs) else c # collapseSpaces cs)"
  by pat_completeness auto
termination
  by (relation "measure length") (auto simp: length_dropWhile_le less_Suc_eq_le)

definition cleanText :: "jsstring \<Rightarrow> jsstring" where
  "cleanText txt =
     trim (map (\<lambda>c. if c = 10 \<or> c = 13 \<or> c = 9 then 32 else c) (collapseSpaces txt))"

text \<open>
  An \<open>img\<close> element as \<open>isValidImage\<close> and the extractors read it: the \<open>src\<close> property (the
  empty string when there is none), the \<open>data-src\<close> and \<open>data-lazy-src\<close> attributes, the
  size properties and the \<open>width\<close> and \<open>height\<close> attributes.
\<close>

record img =
  img_src :: jsstring
  data_src :: "jsstring option"
  data_lazySrc :: "jsstring option"
  naturalWidth :: int
  img_width :: int
  naturalHeight :: int
  img_height :: int
  attr_width :: "jsstring option"
  attr_height :: "jsstring option"

definition excludePatterns :: "jsstring list" where
  "excludePatterns = map str
     [''logo'', ''icon'', ''placeholder'', ''loading'', ''spinner'', ''avatar'',
      ''banner'', ''header'', ''footer'', ''social'', ''facebook'', ''twitter'',
      ''linkedin'', ''instagram'', ''pinterest'', ''youtube'', ''button'',
      ''1x1'', ''pixel'', ''tracking'', ''beacon'', ''spacer'']"

text \<open>\<open>a || b || c || d\<close> on numbers, where \<open>None\<close> is \<open>NaN\<close> and the last operand is a constant.\<close>

definition firstNonZero :: "int \<Rightarrow> int \<Rightarrow> int option \<Rightarrow> int \<Rightarrow> int" where
  "firstNonZero a b c d =
     (if a \<noteq> 0 then a else if b \<noteq> 0 then b
      else (case c of Some v \<Rightarrow> if v \<noteq> 0 then v else d | None \<Rightarrow> d))"

definition isValidImage :: "jslib \<Rightarrow> img \<Rightarrow> bool" where
  "isValidImage lib i =
     (let src = toLowerCase lib
                  (case orElse (orElse (Some (img_src i)) (data_src i)) (Some []) of
                     Some v \<Rightarrow> v | None \<Rightarrow> [])
      in if \<exists>pattern \<in> set excludePatterns. includes_js src pattern then False
         else
           (let w = firstNonZero (naturalWidth i) (img_width i) (parseInt (attr_width i)) 300;
                h = firstNonZero (naturalHeight i) (img_height i) (parseInt (attr_height i)) 200
            in w \<ge> MIN_IMAGE_WIDTH \<and> h \<ge> MIN_IMAGE_HEIGHT))"

text \<open>
  \<open>resolveUrl\<close> never raises (see \<open>resolveUrl_total\<close> below); its callers use the value it
  returns.
\<close>

definition resolved :: "jslib \<Rightarrow> jsstring option \<Rightarrow> jsstring \<Rightarrow> jsstring option" where
  "resolved lib url baseUrl = (case resolveUrl lib url baseUrl of Inr v \<Rightarrow> v | Inl e \<Rightarrow> None)"

section \<open>The specification extractor\<close>

definition addSpecs :: "int \<Rightarrow> yacht \<Rightarrow> yacht" where
  "addSpecs n y = y \<lparr> confidence := (confidence y) \<lparr> conf_specs := conf_specs (confidence y) + n \<rparr> \<rparr>"

text \<open>\<^verbatim>\<open>/\b(19[5-9]\d|20[0-2]\d)\b/\<close>\<close>

definition yearPattern :: rx where
  "yearPattern =
     seqs [WordB,
           Grp 1 (Alt (seqs [lit ''19'', range 53 57, digit])
                      (seqs [lit ''20'', range 48 50, digit])),
           WordB]"

text \<open>
  The year part of \<open>extractSpecs\<close>; \<open>currentYear\<close> is \<open>new Date().getFullYear()\<close>.
\<close>

definition extractYear :: "int \<Rightarrow> jsstring \<Rightarrow> yacht \<Rightarrow> yacht" where
  "extractYear currentYear txt y =
     (case match txt yearPattern of
        None \<Rightarrow> y
      | Some yearMatch \<Rightarrow>
          (case parseInt (Some (group 1 yearMatch)) of
             None \<Rightarrow> y
           | Some yr \<Rightarrow>
               if yr \<ge> 1950 \<and> yr \<le> currentYear + 1
               then addSpecs 20 (y \<lparr> year := group 1 yearMatch \<rparr>)
               else y))"

text \<open>
  \<open>lengthPatterns\<close>, each with the unit it stands for: \<open>pattern.toString()\<close> contains
  \<open>meter\<close> for the third and the fourth.
  \<^verbatim>\<open>/(?:length|loa)[:\s]*(\d+(?:\.\d+)?)\s*(?:ft|feet|')/i\<close>,
  \<^verbatim>\<open>/(\d+(?:\.\d+)?)\s*(?:ft|feet|')\s*(?:length|loa)?/i\<close>,
  \<^verbatim>\<open>/(?:length|loa)[:\s]*(\d+(?:\.\d+)?)\s*(?:m|meters?|metres?)/i\<close>,
  \<^verbatim>\<open>/(\d+(?:\.\d+)?)\s*(?:m|meters?|metres?)\s*(?:length|loa)?/i\<close>.
\<close>

definition decimalNumber :: rx where
  "decimalNumber = Seq (plus digit) (opt (Seq (ch 46) (plus digit)))"

definition lengthWord :: rx where
  "lengthWord = Alt (litI ''length'') (litI ''loa'')"

definition colonOrSpace :: rx where
  "colonOrSpace = Cls (\<lambda>c. c = 58 \<or> isSpace c)"

definition feetUnit :: rx where
  "feetUnit = alts [litI ''ft'', litI ''feet'', ch 39]"

definition metreUnit :: rx where
  "metreUnit = alts [chI 109, Seq (litI ''meter'') (opt (chI 115)),
                     Seq (litI ''metre'') (opt (chI 115))]"

definition lengthPatterns :: "(rx \<times> jsstring) list" where
  "lengthPatterns =
     [ (seqs [lengthWord, Star colonOrSpace, Grp 1 decimalNumber, Star space, feetUnit],
        str ''ft''),
       (seqs [Grp 1 decimalNumber, Star space, feetUnit, Star space, opt lengthWord],
        str ''ft''),
       (seqs [lengthWord, Star colonOrSpace, Grp 1 decimalNumber, Star space, metreUnit],
        str ''m''),
       (seqs [Grp 1 decimalNumber, Star space, metreUnit, Star space, opt lengthWord],
        str ''m'') ]"

fun extractLength :: "(rx \<times> jsstring) list \<Rightarrow> jsstring \<Rightarrow> yacht \<Rightarrow> yacht" where
  "extractLength [] txt y = y"
| "extractLength (pattern # patterns) txt y =
     (case match txt (fst pattern) of
        None \<Rightarrow> extractLength patterns txt y
      | Some mt \<Rightarrow>
          (case parseFloat (group 1 mt) of
             None \<Rightarrow> extractLength patterns txt y
           | Some len \<Rightarrow>
               if len \<ge> 15 \<and> len \<le> 500
               then addSpecs 20 (y \<lparr> length_y := group 1 mt, lengthUnit := snd pattern \<rparr>)
               else extractLength patterns txt y))"

text \<open>\<open>typeKeywords\<close>, in the order \<open>Object.entries\<close> lists them.\<close>

definition typeKeywords :: "(jsstring \<times> jsstring) list" where
  "typeKeywords = map (\<lambda>(k, t). (str k, str t))
     [(''motor yacht'', ''motor''), (''motoryacht'', ''motor''), (''power boat'', ''motor''),
      (''sailing yacht'', ''sail''), (''sailboat'', ''sail''), (''sloop'', ''sail''),
      (''ketch'', ''sail''),
      (''catamaran'', ''catamaran''), (''multihull'', ''catamaran''),
      (''superyacht'', ''superyacht''), (''megayacht'', ''superyacht''),
      (''mega yacht'', ''superyacht''),
      (''sportfish'', ''motor''), (''sport fish'', ''motor''), (''express cruiser'', ''motor''),
      (''trawler'', ''motor''), (''flybridge'', ''motor''), (''sedan'', ''motor'')]"

fun extractType :: "(jsstring \<times> jsstring) list \<Rightarrow> jsstring \<Rightarrow> yacht \<Rightarrow> yacht" where
  "extractType [] lowerText y = y"
| "extractType (entry # entries) lowerText y =
     (if includes_js lowerText (fst entry)
      then addSpecs 15 (y \<lparr> type_y := snd entry \<rparr>)
      else extractType entries lowerText y)"

text \<open>
  \<open>locationPatterns\<close>:
  \<^verbatim>\<open>/(?:location|located|port)[:\s]+([A-Za-z][A-Za-z\s,]+?)(?:\.|$|\n|<)/i\<close>,
  \<^verbatim>\<open>/\b([A-Z][a-z]+(?:\s+[A-Z][a-z]+)*,\s*[A-Z]{2})\b/\<close>,
  \<^verbatim>\<open>/\b([A-Z][a-z]+(?:\s+[A-Z][a-z]+)*,\s*[A-Z][a-z]+(?:\s+[A-Z][a-z]+)*)\b/\<close>.
\<close>

definition capWord :: rx where
  "capWord = Seq (Cls isUpper) (plus (Cls isLower))"

definition capWords :: rx where
  "capWords = Seq capWord (Star (Seq (plus space) capWord))"

definition locationPatterns :: "rx list" where
  "locationPatterns =
     [ seqs [alts [litI ''location'', litI ''located'', litI ''port''], plus colonOrSpace,
             Grp 1 (Seq (Cls (\<lambda>c. isUpper c \<or> isLower c))
                        (lazyPlus (Cls (\<lambda>c. isUpper c \<or> isLower c \<or> isSpace c \<or> c = 44)))),
             alts [ch 46, Eol, ch 10, ch 60]],
       seqs [WordB,
             Grp 1 (seqs [capWords, ch 44, Star space, Cls isUpper, Cls isUpper]),
             WordB],
       seqs [WordB, Grp 1 (seqs [capWords, ch 44, Star space, capWords]), WordB] ]"

fun extractLocation :: "rx list \<Rightarrow> jsstring \<Rightarrow> yacht \<Rightarrow> yacht" where
  "extractLocation [] txt y = y"
| "extractLocation (pattern # patterns) txt y =
     (case match txt pattern of
        None \<Rightarrow> extractLocation patterns txt y
      | Some mt \<Rightarrow>
          if length (group 1 mt) \<ge> 3 \<and> length (group 1 mt) \<le> 50
          then addSpecs 15 (y \<lparr> location := cleanText (group 1 mt) \<rparr>)
          else extractLocation patterns txt y)"

text \<open>\<open>extractSpecs(element, yacht)\<close>; \<open>txt\<close> is \<open>element.textContent || ''\<close>.\<close>

definition extractSpecs :: "jslib \<Rightarrow> int \<Rightarrow> jsstring \<Rightarrow> yacht \<Rightarrow> yacht" where
  "extractSpecs lib currentYear txt y =
     extractLocation locationPatterns txt
       (extractType typeKeywords (toLowerCase lib txt)
          (extractLength lengthPatterns txt
             (extractYear currentYear txt y)))"

section \<open>The generic card extractor\<close>

text \<open>
  A candidate element, as the extractor queries it: its text, its class attribute, the
  elements matched by \<^verbatim>\<open>h1, h2, h3, h4, h5, a[href*="boat"], a[href*="yacht"]\<close> (each
  with its text, its \<open>href\<close> property and the \<open>href\<close> of the closest enclosing link), its
  \<open>img\<close> elements, the \<open>style\<close> attributes of the elements matched by
  \<^verbatim>\<open>[style*="background"]\<close>, and the text of the first element matched by
  \<^verbatim>\<open>[class*="location"], [class*="port"], [class*="city"]\<close>.
\<close>

record heading =
  h_text :: jsstring
  h_href :: "jsstring option"
  h_closestHref :: "jsstring option"

record element =
  textContent :: jsstring
  className :: jsstring
  headings :: "heading list"
  imgs :: "img list"
  bgStyles :: "jsstring list"
  locationEl :: "jsstring option"

text \<open>\<^verbatim>\<open>/^[\$\u201A\u00C7\u00A8\u00AC\u00A3]/\<close>\<close>

definition currencyStart :: rx where
  "currencyStart =
     Seq Bol (Cls (\<lambda>c. c = 36 \<or> c = 8218 \<or> c = 199 \<or> c = 168 \<or> c = 172 \<or> c = 163))"

text \<open>\<^verbatim>\<open>/url\(['"]?([^'")\s]+)['"]?\)/\<close>\<close>

definition bgUrlPattern :: rx where
  "bgUrlPattern =
     seqs [lit ''url('', opt (Cls (\<lambda>c. c = 39 \<or> c = 34)),
           Grp 1 (plus (Cls (\<lambda>c. \<not> (c = 39 \<or> c = 34 \<or> c = 41 \<or> isSpace c)))),
           opt (Cls (\<lambda>c. c = 39 \<or> c = 34)), ch 41]"

text \<open>
  The title loop: the first heading whose cleaned text has 5 to 150 characters and does
  not start with a currency character gives the title and the detail address.
\<close>

fun findTitle :: "heading list \<Rightarrow> (jsstring \<times> jsstring option) option" where
  "findTitle [] = None"
| "findTitle (h # hs) =
     (let t = cleanText (h_text h) in
      if length t \<ge> 5 \<and> length t \<le> 150 \<and> match t currencyStart = None
      then Some (t, orElse (h_href h) (h_closestHref h))
      else findTitle hs)"

text \<open>The fallback loop over the elements with a background style.\<close>

fun addBackgroundImages :: "jslib \<Rightarrow> jsstring \<Rightarrow> jsstring list \<Rightarrow> jsstring list \<Rightarrow> jsstring list" where
  "addBackgroundImages lib baseUrl [] acc = acc"
| "addBackgroundImages lib baseUrl (style # styles) acc =
     (case match style bgUrlPattern of
        None \<Rightarrow> addBackgroundImages lib baseUrl styles acc
      | Some bgMatch \<Rightarrow>
          if length acc < 3 then
            (case resolved lib (Some (group 1 bgMatch)) baseUrl of
               None \<Rightarrow> addBackgroundImages lib baseUrl styles acc
             | Some imgUrl \<Rightarrow>
                 if truthy imgUrl \<and> \<not> includes_js imgUrl (str ''placeholder'')
                 then addBackgroundImages lib baseUrl styles (acc @ [imgUrl])
                 else addBackgroundImages lib baseUrl styles acc)
          else addBackgroundImages lib baseUrl styles acc)"

text \<open>
  \<^verbatim>\<open>Array.from(images).filter(isValidImage).map(img => resolveUrl(..)).filter(Boolean)\<close>
\<close>

definition imageUrls :: "jslib \<Rightarrow> jsstring \<Rightarrow> img list \<Rightarrow> jsstring list" where
  "imageUrls lib baseUrl is =
     filter truthy
       (List.map_filter
          (\<lambda>i. resolved lib (orElse (orElse (Some (img_src i)) (data_src i)) (data_lazySrc i))
                  baseUrl)
          (filter (isValidImage lib) is))"

definition extractFromGenericCard ::
    "jslib \<Rightarrow> int \<Rightarrow> nat \<Rightarrow> element \<Rightarrow> jsstring \<Rightarrow> nat \<Rightarrow> yacht option" where
  "extractFromGenericCard lib currentYear now el baseUrl index =
     (let txt = textContent el;
          y = createEmptyYacht now index
      in if length txt < 20 \<or> length txt > 5000 then None
         else
           (let priceData = extractPrice txt;
                y = (case raw priceData of
                       Some v \<Rightarrow>
                         if v \<noteq> 0 \<and> v \<ge> MIN_YACHT_PRICE \<and> v \<le> MAX_YACHT_PRICE
                         then y \<lparr> price := formatted priceData, priceRaw := Some v,
                                  confidence := (confidence y) \<lparr> conf_price := 70 \<rparr> \<rparr>
                         else y
                     | None \<Rightarrow> y);
                y = (case findTitle (headings el) of
                       Some (t, u) \<Rightarrow>
                         y \<lparr> title := t, detailUrl := u,
                             confidence := (confidence y) \<lparr> conf_title := 65 \<rparr> \<rparr>
                     | None \<Rightarrow> y);
                y = y \<lparr> images := imageUrls lib baseUrl (imgs el) \<rparr>;
                y = (if length (images y) = 0
                     then y \<lparr> images := addBackgroundImages lib baseUrl (bgStyles el) (images y) \<rparr>
                     else y);
                y = y \<lparr> confidence :=
                          (confidence y) \<lparr> conf_images := (if length (images y) > 0 then 70 else 0) \<rparr> \<rparr>;
                y = (case locationEl el of
                       Some locText \<Rightarrow> addSpecs 20 (y \<lparr> location := cleanText locText \<rparr>)
                     | None \<Rightarrow> y);
                y = extractSpecs lib currentYear txt y
            in if \<not> truthy (title y) then None else Some y))"

section \<open>Structured data\<close>

text \<open>
  A JSON-LD object as \<open>parseJsonLdProduct\<close> reads it.  \<open>offers\<close> is an object or an
  array of objects, and of an offer only \<open>parseFloat(offer.price)\<close> is used (\<open>None\<close> when
  that is \<open>NaN\<close>); \<open>image\<close> is a string, an object with an optional \<open>url\<close>, or an array
  of these.
\<close>

record ld_offer =
  offer_price :: "real option"

datatype ld_offers = OfferObject ld_offer | OfferArray "ld_offer list"

datatype ld_image = ImageString jsstring | ImageObject "jsstring option"

datatype ld_images = ImageSingle ld_image | ImageArray "ld_image list"

record ld_product =
  ld_type :: "jsstring option"
  ld_name :: "jsstring option"
  ld_description :: "jsstring option"
  ld_offers :: "ld_offers option"
  ld_image :: "ld_images option"

text \<open>A top-level item may carry a \<open>@graph\<close> array of further objects.\<close>

record ld_item = ld_product +
  ld_graph :: "ld_product list option"

text \<open>
  The content of a \<^verbatim>\<open>script[type="application/ld+json"]\<close> element after \<open>JSON.parse\<close>:
  a syntax error, one object, or an array of objects.
\<close>

datatype ld_script = ScriptError | ScriptObject ld_item | ScriptArray "ld_item list"

text \<open>\<^verbatim>\<open>/\b(19[89]\d|20[0-2]\d)\b/\<close>\<close>

definition jsonLdYearPattern :: rx where
  "jsonLdYearPattern =
     seqs [WordB,
           Grp 1 (Alt (seqs [lit ''19'', Cls (\<lambda>c. c = 56 \<or> c = 57), digit])
                      (seqs [lit ''20'', range 48 50, digit])),
           WordB]"

definition orEmpty :: "jsstring option \<Rightarrow> jsstring" where
  "orEmpty v = (case v of Some s \<Rightarrow> s | None \<Rightarrow> [])"

definition imageAddress :: "ld_image \<Rightarrow> jsstring option" where
  "imageAddress i = (case i of ImageString s \<Rightarrow> Some s | ImageObject u \<Rightarrow> u)"

text \<open>
  \<open>parseJsonLdProduct\<close>.  It calls \<open>createEmptyYacht()\<close> with no index; \<open>now\<close> is the
  reading of the clock at that call.  Reading \<open>offers[0].price\<close> of an empty \<open>offers\<close>
  array raises a \<open>TypeError\<close>.
\<close>

definition parseJsonLdProduct :: "nat \<Rightarrow> ld_product \<Rightarrow> exn + yacht" where
  "parseJsonLdProduct now data =
     (let y = createEmptyYacht now 0;
          y = y \<lparr> source := str ''json-ld'', confidence := (confidence y) \<lparr> overall := 85 \<rparr> \<rparr>;
          y = y \<lparr> title := orEmpty (ld_name data), description := orEmpty (ld_description data) \<rparr>
      in bindE
           (case ld_offers data of
              None \<Rightarrow> Inr y
            | Some offers \<Rightarrow>
                bindE (case offers of
                         OfferObject offer \<Rightarrow> Inr offer
                       | OfferArray [] \<Rightarrow> Inl TypeError
                       | OfferArray (offer # _) \<Rightarrow> Inr offer)
                  (\<lambda>offer.
                     let pr = (case offer_price offer of
                                 Some v \<Rightarrow> if v \<noteq> 0 then Some v else None
                               | None \<Rightarrow> None)
                     in Inr (y \<lparr> priceRaw := pr,
                                 price := (case pr of Some v \<Rightarrow> formatPrice v USD | None \<Rightarrow> []),
                                 confidence := (confidence y) \<lparr> conf_price := 90 \<rparr> \<rparr>)))
           (\<lambda>y.
              let y = (case ld_image data of
                         None \<Rightarrow> y
                       | Some (ImageSingle (ImageString [])) \<Rightarrow> y
                       | Some declared \<Rightarrow>
                           (let imageList = (case declared of ImageArray entries \<Rightarrow> entries
                                             | ImageSingle entry \<Rightarrow> [entry])
                            in y \<lparr> images := filter truthy (List.map_filter imageAddress imageList),
                                   confidence := (confidence y) \<lparr> conf_images := 90 \<rparr> \<rparr>))
              in Inr (case match (title y @ str '' '' @ description y) jsonLdYearPattern of
                        Some yearMatch \<Rightarrow> y \<lparr> year := group 1 yearMatch \<rparr>
                      | None \<Rightarrow> y)))"

text \<open>
  The loops of \<open>extractStructuredData\<close> push onto the shared array \<open>results\<close>; the state
  is that array and the number of clock readings taken so far.  An exception leaves the
  loops of the current script, and the \<open>catch\<close> keeps what was pushed before it.
\<close>

type_synonym sd_state = "yacht list \<times> nat"

definition isProductType :: "jsstring option \<Rightarrow> bool" where
  "isProductType t = (t = Some (str ''Product'') \<or> t = Some (str ''Vehicle''))"

fun forEachProduct :: "(nat \<Rightarrow> nat) \<Rightarrow> ld_product list \<Rightarrow> sd_state \<Rightarrow> exn option \<times> sd_state" where
  "forEachProduct clock [] st = (None, st)"
| "forEachProduct clock (p # ps) (results, k) =
     (if isProductType (ld_type p) then
        (case parseJsonLdProduct (clock k) p of
           Inl e \<Rightarrow> (Some e, (results, Suc k))
         | Inr y \<Rightarrow> forEachProduct clock ps (results @ [y], Suc k))
      else forEachProduct clock ps (results, k))"

fun forEachItem :: "(nat \<Rightarrow> nat) \<Rightarrow> ld_item list \<Rightarrow> sd_state \<Rightarrow> exn option \<times> sd_state" where
  "forEachItem clock [] st = (None, st)"
| "forEachItem clock (item # items) st =
     (if isProductType (ld_type item) \<or> ld_type item = Some (str ''Offer'')
         \<or> ld_graph item \<noteq> None
      then
        (case forEachProduct clock
                (case ld_graph item of Some g \<Rightarrow> g | None \<Rightarrow> [ld_product.truncate item]) st of
           (Some e, st') \<Rightarrow> (Some e, st')
         | (None, st') \<Rightarrow> forEachItem clock items st')
      else forEachItem clock items st)"

fun forEachScript :: "(nat \<Rightarrow> nat) \<Rightarrow> ld_script list \<Rightarrow> sd_state \<Rightarrow> sd_state" where
  "forEachScript clock [] st = st"
| "forEachScript clock (script # scripts) st =
     forEachScript clock scripts
       (case script of
          ScriptError \<Rightarrow> st
        | ScriptObject item \<Rightarrow> snd (forEachItem clock [item] st)
        | ScriptArray items \<Rightarrow> snd (forEachItem clock items st))"

text \<open>
  A microdata item as \<open>parseMicrodataProduct\<close> reads it: the first element with a given
  \<open>itemprop\<close> (its \<open>content\<close> property, absent on most elements, and its text), and for
  \<open>image\<close> the \<open>src\<close> and \<open>content\<close> properties.
\<close>

record md_prop =
  prop_content :: "jsstring option"
  prop_text :: jsstring

record md_item =
  itemprop :: "jsstring \<Rightarrow> md_prop option"
  md_image :: "(jsstring option \<times> jsstring option) option"

definition getProp :: "md_item \<Rightarrow> string \<Rightarrow> jsstring" where
  "getProp item prop =
     (case itemprop item (str prop) of
        None \<Rightarrow> []
      | Some e \<Rightarrow> trim (orEmpty (orElse (orElse (prop_content e) (Some (prop_text e))) (Some []))))"

definition parseMicrodataProduct :: "nat \<Rightarrow> md_item \<Rightarrow> yacht" where
  "parseMicrodataProduct now item =
     (let y = createEmptyYacht now 0;
          y = y \<lparr> source := str ''microdata'', confidence := (confidence y) \<lparr> overall := 80 \<rparr> \<rparr>;
          y = y \<lparr> title := getProp item ''name'', description := getProp item ''description'',
                  price := (if truthy (getProp item ''price'') then getProp item ''price''
                            else getProp item ''lowPrice'') \<rparr>
      in case md_image item of
           None \<Rightarrow> y
         | Some (src, content) \<Rightarrow>
             y \<lparr> images := filter truthy (List.map_filter id [orElse src content]) \<rparr>)"

fun forEachMicrodata :: "(nat \<Rightarrow> nat) \<Rightarrow> md_item list \<Rightarrow> sd_state \<Rightarrow> sd_state" where
  "forEachMicrodata clock [] st = st"
| "forEachMicrodata clock (item # items) (results, k) =
     forEachMicrodata clock items (results @ [parseMicrodataProduct (clock k) item], Suc k)"

text \<open>
  The parsed document, as far as the strategies query it: the JSON-LD scripts, the
  microdata items, and \<open>querySelectorAll\<close>.
\<close>

record document =
  jsonLdScripts :: "ld_script list"
  microdataItems :: "md_item list"
  querySelectorAll :: "jsstring \<Rightarrow> element list"

text \<open>
  \<open>extractStructuredData\<close>; \<open>clock k\<close> is the value of \<open>Date.now()\<close> at the \<open>k\<close>-th record
  creation of the call, and \<open>doc\<close> is the document \<open>DOMParser\<close> builds from the page.
\<close>

definition extractStructuredData :: "(nat \<Rightarrow> nat) \<Rightarrow> document \<Rightarrow> yacht list" where
  "extractStructuredData clock doc =
     fst (forEachMicrodata clock (microdataItems doc)
            (forEachScript clock (jsonLdScripts doc) ([], 0)))"

section \<open>Site validation\<close>

definition YACHT_KEYWORDS :: "jsstring list" where
  "YACHT_KEYWORDS = map str
     [''yacht'', ''yachts'', ''boat'', ''boats'', ''vessel'', ''vessels'', ''marine'',
      ''sailing'', ''sailboat'', ''motor yacht'', ''catamaran'', ''trimaran'',
      ''brokerage'', ''broker'', ''for sale'', ''buy'', ''sell'',
      ''length overall'', ''loa'', ''beam'', ''draft'', ''hull'',
      ''engine'', ''knots'', ''nautical'', ''marina'', ''cruiser'',
      ''sportfish'', ''trawler'', ''express'', ''flybridge'', ''cockpit'',
      ''galley'', ''cabin'', ''berth'', ''stateroom'', ''helm'']"

definition countYachtKeywords :: "jslib \<Rightarrow> jsstring \<Rightarrow> nat \<times> jsstring list" where
  "countYachtKeywords lib html =
     (let lowerHtml = toLowerCase lib html;
          found = filter (\<lambda>keyword. includes_js lowerHtml keyword) YACHT_KEYWORDS
      in (length found, found))"

record validation =
  valid :: bool
  reason :: "jsstring option"
  keywordsFound :: "jsstring list"

definition validateYachtSite :: "jslib \<Rightarrow> jsstring \<Rightarrow> validation" where
  "validateYachtSite lib html =
     (let (count, found) = countYachtKeywords lib html in
      if count < MIN_YACHT_KEYWORDS then
        \<lparr> valid = False,
          reason = Some (str ''This doesn't appear to be a yacht or boat sales website. Found only ''
                         @ natToString count @ str '' yacht-related terms (minimum: ''
                         @ natToString MIN_YACHT_KEYWORDS @ str '').''),
          keywordsFound = found \<rparr>
      else
        (let lowerHtml = toLowerCase lib html;
             hasInventoryMarkers =
               (includes_js lowerHtml (str ''/boats/'') \<or> includes_js lowerHtml (str ''/yachts/'')
                \<or> includes_js lowerHtml (str ''/inventory/'')
                \<or> includes_js lowerHtml (str ''/listings/'')
                \<or> includes_js lowerHtml (str ''for sale'')
                \<or> includes_js lowerHtml (str ''brokerage''))
         in if \<not> hasInventoryMarkers then
              \<lparr> valid = False,
                reason = Some (str ''This doesn't appear to be a yacht listings page. Please navigate to the inventory or boats for sale page.''),
                keywordsFound = found \<rparr>
            else \<lparr> valid = True, reason = None, keywordsFound = found \<rparr>))"

section \<open>The generic heuristic strategy\<close>

definition candidateSelectors :: "jsstring list" where
  "candidateSelectors = map str
     [''article'', ''.item'', ''.card'', ''.product'', ''.result'',
      ''[class*=\"listing\"]'', ''[class*=\"yacht\"]'', ''[class*=\"boat\"]'',
      ''[class*=\"product\"]'', ''[class*=\"result\"]'', ''[class*=\"item\"]'']"

text \<open>\<open>classes.split(' ')\<close> and \<open>.join('|')\<close>.\<close>

fun splitOn :: "nat \<Rightarrow> jsstring \<Rightarrow> jsstring \<Rightarrow> jsstring list" where
  "splitOn sep cur [] = [cur]"
| "splitOn sep cur (c # cs) =
     (if c = sep then cur # splitOn sep [] cs else splitOn sep (cur @ [c]) cs)"

fun joinWith :: "nat \<Rightarrow> jsstring list \<Rightarrow> jsstring" where
  "joinWith sep [] = []"
| "joinWith sep [x] = x"
| "joinWith sep (x # xs) = x @ [sep] @ joinWith sep xs"

text \<open>
  \<open>Array.prototype.sort()\<close> with no comparator orders strings by their code units, which
  is the lexicographic order on lists.
\<close>

definition classKey :: "jsstring \<Rightarrow> jsstring" where
  "classKey classes = joinWith 124 (sort (splitOn 32 [] classes))"

text \<open>The \<open>Map\<close> from class keys to elements keeps the order in which keys were added.\<close>

fun addToGroup :: "jsstring \<Rightarrow> element \<Rightarrow> (jsstring \<times> element list) list \<Rightarrow> (jsstring \<times> element list) list" where
  "addToGroup k e [] = [(k, [e])]"
| "addToGroup k e ((k', es) # seen) =
     (if k' = k then (k', es @ [e]) # seen else (k', es) # addToGroup k e seen)"

text \<open>\<^verbatim>\<open>/\$[\d,]+|\\u201A\u00C7\u00A8[\d,]+|\u00AC\u00A3[\d,]+/\<close>\<close>

definition pricePresent :: rx where
  "pricePresent =
     alts [seqs [ch 36, plus digitComma],
           seqs [ch 8218, ch 199, ch 168, plus digitComma],
           seqs [ch 172, ch 163, plus digitComma]]"

fun firstPricedGroup :: "(jsstring \<times> element list) list \<Rightarrow> element list" where
  "firstPricedGroup [] = []"
| "firstPricedGroup ((k, elements) # seen) =
     (if length elements \<ge> 2 \<and> length elements \<le> 50 then
        (let priceCount = length (filter (\<lambda>e. test pricePresent (textContent e)) elements) in
         if real priceCount \<ge> real (length elements) * (1 / 2) then elements
         else firstPricedGroup seen)
      else firstPricedGroup seen)"

definition findRepeatedStructures :: "document \<Rightarrow> element list" where
  "findRepeatedStructures doc =
     firstPricedGroup
       (foldl (\<lambda>seen e. if truthy (className e) \<and> length (className e) > 5
                         then addToGroup (classKey (className e)) e seen else seen)
              [] (querySelectorAll doc (str ''div, article, section, li'')))"

fun firstSelectorMatch :: "document \<Rightarrow> jsstring list \<Rightarrow> element list" where
  "firstSelectorMatch doc [] = []"
| "firstSelectorMatch doc (selector # selectors) =
     (let found = querySelectorAll doc selector in
      if length found \<ge> 2 \<and> length found \<le> 100 then found
      else firstSelectorMatch doc selectors)"

text \<open>
  \<open>genericHeuristicParse\<close>; \<open>clock i\<close> is the value of \<open>Date.now()\<close> when the record of
  candidate \<open>i\<close> is created.
\<close>

definition genericHeuristicParse ::
    "jslib \<Rightarrow> int \<Rightarrow> (nat \<Rightarrow> nat) \<Rightarrow> document \<Rightarrow> jsstring \<Rightarrow> yacht list" where
  "genericHeuristicParse lib currentYear clock doc srcUrl =
     (let candidates = firstSelectorMatch doc candidateSelectors;
          candidates = (if length candidates = 0 then findRepeatedStructures doc
                        else candidates)
      in List.map_filter
           (\<lambda>(el, i). extractFromGenericCard lib currentYear (clock i) el srcUrl i)
           (zip candidates [0..<length candidates]))"

section \<open>Adapter dispatch\<close>

text \<open>
  An adapter is a value with a name, a \<open>detect\<close> and a \<open>parse\<close> function over the parsed
  document and the source address.
\<close>

record 'doc adapter =
  name :: jsstring
  detect :: "'doc \<Rightarrow> jsstring \<Rightarrow> bool"
  parse :: "'doc \<Rightarrow> jsstring \<Rightarrow> yacht list"

text \<open>
  Step 3 of \<open>parseYachtListings\<close>: the loop over \<open>SITE_ADAPTERS\<close>.  The last argument is
  the variable \<open>yachts\<close>, assigned by every adapter that detects the page.
\<close>

fun dispatchAdapters :: "'doc adapter list \<Rightarrow> 'doc \<Rightarrow> jsstring \<Rightarrow> yacht list \<Rightarrow> yacht list" where
  "dispatchAdapters [] doc url ys = ys"
| "dispatchAdapters (a # rest) doc url ys =
     (if detect a doc url then
        (let ys = parse a doc url in
         if length ys > 0 then ys
         else dispatchAdapters rest doc url ys)
      else dispatchAdapters rest doc url ys)"

section \<open>The orchestrator\<close>

record debugCounts =
  attempted :: nat
  accepted :: nat
  rejected :: nat
  rejectionReasons :: "jsstring list"

text \<open>
  Step 5 of \<open>parseYachtListings\<close>: the \<open>filter\<close> callback scores and validates each
  record, stamps the source address, and counts what it rejects.
\<close>

fun filterYachts :: "jsstring \<Rightarrow> yacht list \<Rightarrow> debugCounts \<Rightarrow> yacht list \<times> debugCounts" where
  "filterYachts srcUrl [] debug = ([], debug)"
| "filterYachts srcUrl (y # ys) debug =
     (let y = y \<lparr> confidence := (confidence y) \<lparr> overall := calculateConfidence y \<rparr> \<rparr>;
          y = y \<lparr> issues := validateYacht y \<rparr>;
          y = y \<lparr> sourceUrl := srcUrl \<rparr>
      in if overall (confidence y) < MIN_LISTING_CONFIDENCE then
           filterYachts srcUrl ys
             (debug \<lparr> rejected := rejected debug + 1,
                      rejectionReasons := rejectionReasons debug
                        @ [str ''Low confidence ('' @ natToString (nat (overall (confidence y)))
                           @ str ''): ''
                           @ (if truthy (title y) then title y else str ''No title'')] \<rparr>)
         else if \<not> truthy (title y) \<and> \<not> (case priceRaw y of Some v \<Rightarrow> v \<noteq> 0 | None \<Rightarrow> False) then
           filterYachts srcUrl ys
             (debug \<lparr> rejected := rejected debug + 1,
                      rejectionReasons := rejectionReasons debug @ [str ''No title or price''] \<rparr>)
         else
           (let (kept, debug') = filterYachts srcUrl ys (debug \<lparr> accepted := accepted debug + 1 \<rparr>)
            in (y # kept, debug')))"

record parseResult =
  yachts :: "yacht list"
  error :: "jsstring option"
  debug :: debugCounts

text \<open>
  \<open>parseYachtListings(html, sourceUrl)\<close>.  \<open>doc\<close> is the document \<open>DOMParser\<close> builds from
  \<open>html\<close>; \<open>sdClock\<close> and \<open>genClock\<close> are the clock readings of the structured-data and of
  the generic strategy; \<open>adapters\<close> is \<open>SITE_ADAPTERS\<close>.
\<close>

definition parseYachtListings ::
    "jslib \<Rightarrow> int \<Rightarrow> (nat \<Rightarrow> nat) \<Rightarrow> (nat \<Rightarrow> nat) \<Rightarrow> document adapter list
       \<Rightarrow> jsstring \<Rightarrow> document \<Rightarrow> jsstring \<Rightarrow> parseResult" where
  "parseYachtListings lib currentYear sdClock genClock adapters html doc srcUrl =
     (let debug0 = \<lparr> attempted = 0, accepted = 0, rejected = 0, rejectionReasons = [] \<rparr>;
          validation = validateYachtSite lib html
      in if \<not> valid validation
         then \<lparr> yachts = [], error = reason validation, debug = debug0 \<rparr>
         else
           (let ys = [];
                structuredYachts = extractStructuredData sdClock doc;
                ys = (if length structuredYachts > 0 then structuredYachts else ys);
                ys = (if length ys = 0 then dispatchAdapters adapters doc srcUrl ys else ys);
                ys = (if length ys = 0
                      then genericHeuristicParse lib currentYear genClock doc srcUrl else ys);
                debug1 = debug0 \<lparr> attempted := length ys \<rparr>;
                (ys, debug2) = filterYachts srcUrl ys debug1;
                ys = deduplicateYachts lib ys
            in \<lparr> yachts = ys, error = None, debug = debug2 \<rparr>))"

section \<open>Reference notions and sample data\<close>

text \<open>
  The deduplication rule in the words of the specification: two records are the same
  listing when they share a non-empty detail address, or when neither has one and they
  agree on the lower-cased trimmed title and on \<open>priceRaw\<close> (null counted as 0).
\<close>

definition sameListing :: "jslib \<Rightarrow> yacht \<Rightarrow> yacht \<Rightarrow> bool" where
  "sameListing lib a b =
     (if truthyOpt (detailUrl a) then truthyOpt (detailUrl b) \<and> detailUrl a = detailUrl b
      else \<not> truthyOpt (detailUrl b)
           \<and> trim (toLowerCase lib (title a)) = trim (toLowerCase lib (title b))
           \<and> priceOrZero a = priceOrZero b)"

text \<open>Lower-casing of the letters A to Z, which is what \<open>toLowerCase\<close> does on ASCII text.\<close>

definition asciiLower :: "jsstring \<Rightarrow> jsstring" where
  "asciiLower s = map (\<lambda>c. if 65 \<le> c \<and> c \<le> 90 then c + 32 else c) s"

text \<open>
  A library instance for evaluation: ASCII lower-casing, non-negative integers printed in
  decimal, and a \<open>URL\<close> constructor that rejects every address.
\<close>

definition sampleLib :: jslib where
  "sampleLib = \<lparr> toLowerCase = asciiLower,
                 numberToString = (\<lambda>r. natToString (nat \<lfloor>r\<rfloor>)),
                 newURL = (\<lambda>u b. Inl TypeError) \<rparr>"

text \<open>
  A record read from JSON-LD whose remaining fields were filled in through the edit
  dialog (\<open>saveYachtEdit\<close>), which recomputes the confidence.
\<close>

definition editedJsonLdYacht :: yacht where
  "editedJsonLdYacht =
     (createEmptyYacht 0 0)
       \<lparr> title := str ''2023 Sunseeker 68'', priceRaw := Some 2850000, year := str ''2023'',
         length_y := str ''68'', type_y := str ''motor'', location := str ''Miami, FL'',
         images := [str ''http://x/a.jpg''], source := str ''json-ld'' \<rparr>"

definition sampleYacht :: "string \<Rightarrow> real option \<Rightarrow> string option \<Rightarrow> yacht" where
  "sampleYacht t p u =
     (createEmptyYacht 0 0) \<lparr> title := str t, priceRaw := p, detailUrl := map_option str u \<rparr>"

definition dupYachts :: "yacht list" where
  "dupYachts =
     [sampleYacht ''Sunseeker 68'' (Some 2850) (Some ''http://x/boats/1''),
      sampleYacht ''Princess 55'' None None,
      sampleYacht ''Other title'' (Some 99) (Some ''http://x/boats/1''),
      sampleYacht '' PRINCESS 55 '' (Some 0) (Some ''''),
      sampleYacht ''Princess 55'' (Some 7) None]"

definition emptyAdapter :: "unit adapter" where
  "emptyAdapter = \<lparr> name = str ''detects-but-empty'', detect = (\<lambda>d u. True),
                    parse = (\<lambda>d u. []) \<rparr>"

definition blindAdapter :: "unit adapter" where
  "blindAdapter = \<lparr> name = str ''never-detects'', detect = (\<lambda>d u. False),
                    parse = (\<lambda>d u. [sampleYacht ''Unused'' None None]) \<rparr>"

definition goodAdapter :: "unit adapter" where
  "goodAdapter = \<lparr> name = str ''good'', detect = (\<lambda>d u. True),
                   parse = (\<lambda>d u. [sampleYacht ''Sunseeker 68'' (Some 2850000) None]) \<rparr>"

definition lateAdapter :: "unit adapter" where
  "lateAdapter = \<lparr> name = str ''late'', detect = (\<lambda>d u. True),
                   parse = (\<lambda>d u. [sampleYacht ''Princess 55'' None None]) \<rparr>"

section \<open>Properties\<close>

subsection \<open>Strings\<close>



subsection \<open>Confidence\<close>

lemma Math_round_percent: "Math_round (real_of_int s / real_of_int 100 * 100) = s"
  by (simp add: Math_round_def)

lemma addIf_bounds: "0 \<le> n \<Longrightarrow> s \<le> addIf c n s \<and> addIf c n s \<le> s + n"
  by (simp add: addIf_def)

lemma calculateConfidence_bounds: "0 \<le> calculateConfidence y \<and> calculateConfidence y \<le> 110"
proof -
  define s1 where "s1 = addIf (truthy (title y)) 35 0"
  define s2 where "s2 = addIf (length (images y) > 0) 25 s1"
  define s3 where "s3 = addIf (hasPositivePrice y) 15 s2"
  define s4 where "s4 = addIf (truthy (year y)) 10 s3"
  define s5 where "s5 = addIf (truthy (length_y y)) 5 s4"
  define s6 where "s6 = addIf (truthy (type_y y)) 5 s5"
  define s7 where "s7 = addIf (truthy (location y)) 5 s6"
  define s8 where "s8 = addIf (source y = str ''json-ld'' \<or> source y = str ''microdata''
                           \<or> source y = str ''red-ensign'') 10 s7"
  have eq: "calculateConfidence y = s8"
    unfolding calculateConfidence_def Let_def s8_def s7_def s6_def s5_def s4_def s3_def
      s2_def s1_def
    using Math_round_percent by simp
  have "0 \<le> s1 \<and> s1 \<le> 35" unfolding s1_def using addIf_bounds [of 35 0] by simp
  moreover have "s1 \<le> s2 \<and> s2 \<le> s1 + 25" unfolding s2_def by (rule addIf_bounds) simp
  moreover have "s2 \<le> s3 \<and> s3 \<le> s2 + 15" unfolding s3_def by (rule addIf_bounds) simp
  moreover have "s3 \<le> s4 \<and> s4 \<le> s3 + 10" unfolding s4_def by (rule addIf_bounds) simp
  moreover have "s4 \<le> s5 \<and> s5 \<le> s4 + 5" unfolding s5_def by (rule addIf_bounds) simp
  moreover have "s5 \<le> s6 \<and> s6 \<le> s5 + 5" unfolding s6_def by (rule addIf_bounds) simp
  moreover have "s6 \<le> s7 \<and> s7 \<le> s6 + 5" unfolding s7_def by (rule addIf_bounds) simp
  moreover have "s7 \<le> s8 \<and> s8 \<le> s7 + 10" unfolding s8_def by (rule addIf_bounds) simp
  ultimately show ?thesis unfolding eq by linarith
qed

text \<open>
  C4.  The claim is that the recomputed confidence always lies between 0 and 100.  For a
  JSON-LD record with a title, an image, a positive price, a year, a length, a type and a
  location the score is 100 + 10 over a maximum of 100, and the function returns 110.
\<close>

theorem calculateConfidence_json_ld_110: "calculateConfidence editedJsonLdYacht = 110"
  by (simp add: calculateConfidence_def editedJsonLdYacht_def createEmptyYacht_def
      Math_round_def truthy_def hasPositivePrice_def str_def addIf_def)

subsection \<open>Adapter dispatch\<close>

lemma dispatchAdapters_find:
  "dispatchAdapters adapters doc url [] =
     (case find (\<lambda>a. detect a doc url \<and> length (parse a doc url) > 0) adapters of
        None \<Rightarrow> [] | Some a \<Rightarrow> parse a doc url)"
  by (induction adapters) (auto simp: Let_def)

text \<open>
  C2.  The dispatch loop returns the records of the first adapter, in registration
  order, that detects the page and parses at least one record (and no records when there
  is none); an adapter that detects the page but parses nothing is passed over and the
  adapters after it are tried.
\<close>

theorem dispatch_first_detecting_nonempty:
  "dispatchAdapters adapters doc url [] =
     (case find (\<lambda>a. detect a doc url \<and> length (parse a doc url) > 0) adapters of
        None \<Rightarrow> [] | Some a \<Rightarrow> parse a doc url)
   \<and> (detect a doc url \<and> parse a doc url = [] \<longrightarrow>
        dispatchAdapters (a # rest) doc url [] = dispatchAdapters rest doc url [])"
  by (simp add: dispatchAdapters_find Let_def)

theorem dispatch_first_detecting_nonempty_witness:
  "detect emptyAdapter () [] \<and> parse emptyAdapter () [] = []
   \<and> dispatchAdapters [emptyAdapter, blindAdapter, goodAdapter, lateAdapter] () [] []
       = parse goodAdapter () []
   \<and> dispatchAdapters [emptyAdapter, blindAdapter, goodAdapter, lateAdapter] () [] []
       = dispatchAdapters [blindAdapter, goodAdapter, lateAdapter] () [] []"
  using dispatch_first_detecting_nonempty
          [of "[emptyAdapter, blindAdapter, goodAdapter, lateAdapter]" "()" "[]" emptyAdapter
              "[blindAdapter, goodAdapter, lateAdapter]"]
  by (simp add: emptyAdapter_def blindAdapter_def goodAdapter_def lateAdapter_def)

subsection \<open>Deduplication\<close>

lemma firsts_Cons:
  "map ((!) (y # ys))
     (filter (\<lambda>i. f ((y # ys) ! i) \<notin> S \<and> (\<forall>j<i. f ((y # ys) ! j) \<noteq> f ((y # ys) ! i)))
        [0..<Suc (length ys)])
   = (if f y \<notin> S then [y] else [])
     @ map ((!) ys)
         (filter (\<lambda>i. f (ys ! i) \<notin> insert (f y) S \<and> (\<forall>j<i. f (ys ! j) \<noteq> f (ys ! i)))
            [0..<length ys])"
proof -
  have upt: "[0..<Suc (length ys)] = 0 # map Suc [0..<length ys]"
    by (simp add: upt_conv_Cons map_Suc_upt del: upt_Suc)
  have flt: "filter (\<lambda>i. f ((y # ys) ! i) \<notin> S \<and> (\<forall>j<i. f ((y # ys) ! j) \<noteq> f ((y # ys) ! i)))
               (map Suc [0..<length ys])
           = map Suc (filter (\<lambda>i. f (ys ! i) \<notin> insert (f y) S \<and> (\<forall>j<i. f (ys ! j) \<noteq> f (ys ! i)))
               [0..<length ys])"
    unfolding filter_map comp_def
    by (rule arg_cong [where f = "map Suc"], rule filter_cong [OF refl])
       (auto simp: All_less_Suc2)
  show ?thesis
    unfolding upt by (simp only: filter.simps flt) (simp add: comp_def)
qed

lemma insert_seen_Inl: "insert (Inl u) (Inl ` su \<union> Inr ` st) = Inl ` insert u su \<union> Inr ` st"
  by auto

lemma insert_seen_Inr: "insert (Inr k) (Inl ` su \<union> Inr ` st) = Inl ` su \<union> Inr ` insert k st"
  by auto

lemma dedupFilter_firsts:
  "dedupFilter lib su st ys =
     map ((!) ys) (filter (\<lambda>i. yachtKey lib (ys ! i) \<notin> Inl ` su \<union> Inr ` st
                     \<and> (\<forall>j<i. yachtKey lib (ys ! j) \<noteq> yachtKey lib (ys ! i))) [0..<length ys])"
proof (induction ys arbitrary: su st)
  case Nil
  then show ?case by simp
next
  case (Cons y ys)
  let ?S = "Inl ` su \<union> Inr ` st"
  show ?case
  proof (cases "yachtKey lib y \<in> ?S")
    case True
    then have abs: "insert (yachtKey lib y) ?S = ?S" by (rule insert_absorb)
    have "dedupFilter lib su st (y # ys) = dedupFilter lib su st ys"
      using True by (auto simp: yachtKey_def Let_def split: if_splits)
    then show ?thesis
      unfolding length_Cons firsts_Cons abs using True
      by (simp only: Cons.IH if_False simp_thms append_Nil)
  next
    case False
    show ?thesis
    proof (cases "truthyOpt (detailUrl y)")
      case True
      then have k: "yachtKey lib y = Inl (the (detailUrl y))" by (simp add: yachtKey_def)
      have "dedupFilter lib su st (y # ys)
              = y # dedupFilter lib (insert (the (detailUrl y)) su) st ys"
        using False True by (auto simp: k)
      then show ?thesis
        unfolding length_Cons firsts_Cons using False
        by (simp only: Cons.IH k insert_seen_Inl if_True simp_thms append_Cons append_Nil)
    next
      case nt: False
      then have k: "yachtKey lib y = Inr (titleKey lib y)" by (simp add: yachtKey_def)
      have "dedupFilter lib su st (y # ys)
              = y # dedupFilter lib su (insert (titleKey lib y) st) ys"
        using False nt by (auto simp: k Let_def)
      then show ?thesis
        unfolding length_Cons firsts_Cons using False
        by (simp only: Cons.IH k insert_seen_Inr if_True simp_thms append_Cons append_Nil)
    qed
  qed
qed

lemma deduplicateYachts_firsts:
  "deduplicateYachts lib ys =
     map ((!) ys) (filter (\<lambda>i. \<forall>j<i. yachtKey lib (ys ! j) \<noteq> yachtKey lib (ys ! i))
                     [0..<length ys])"
  by (simp add: deduplicateYachts_def dedupFilter_firsts)

lemma append_sep_eq_iff:
  "c \<notin> set n1 \<Longrightarrow> c \<notin> set n2 \<Longrightarrow> t1 @ c # n1 = t2 @ c # n2 \<longleftrightarrow> t1 = t2 \<and> n1 = n2"
  by (auto simp: append_eq_append_conv2 append_eq_Cons_conv Cons_eq_append_conv)

lemma titleKey_eq_iff:
  assumes "124 \<notin> set (numberToString lib (priceOrZero a))"
      and "124 \<notin> set (numberToString lib (priceOrZero b))"
  shows "titleKey lib a = titleKey lib b \<longleftrightarrow>
           trim (toLowerCase lib (title a)) = trim (toLowerCase lib (title b))
           \<and> numberToString lib (priceOrZero a) = numberToString lib (priceOrZero b)"
  using append_sep_eq_iff [OF assms] by (simp add: titleKey_def str_def)

lemma yachtKey_eq_sameListing:
  assumes "inj_on (numberToString lib) (priceOrZero ` set ys)"
      and "\<forall>y\<in>set ys. 124 \<notin> set (numberToString lib (priceOrZero y))"
      and "a \<in> set ys" "b \<in> set ys"
  shows "yachtKey lib a = yachtKey lib b \<longleftrightarrow> sameListing lib a b"
proof -
  have n: "numberToString lib (priceOrZero a) = numberToString lib (priceOrZero b)
             \<longleftrightarrow> priceOrZero a = priceOrZero b"
    using assms(1,3,4) by (auto dest: inj_onD)
  have t: "titleKey lib a = titleKey lib b \<longleftrightarrow>
           trim (toLowerCase lib (title a)) = trim (toLowerCase lib (title b))
           \<and> priceOrZero a = priceOrZero b"
    using titleKey_eq_iff [of lib a b] assms(2,3,4) n by blast
  show ?thesis
    by (cases "detailUrl a"; cases "detailUrl b")
       (auto simp: yachtKey_def sameListing_def t truthyOpt_def)
qed

text \<open>
  C6.  Deduplication keeps, of the records that are the same listing (the same non-empty
  detail address, or no detail address and the same lower-cased trimmed title and the
  same \<open>priceRaw\<close> with null counted as 0), exactly the first one: a record stays if and
  only if no earlier record of the input is the same listing.  Numbers print injectively
  and without the separator \<open>|\<close>, as they do in JavaScript.
\<close>

theorem deduplicateYachts_first_per_listing:
  assumes "inj_on (numberToString lib) (priceOrZero ` set ys)"
      and "\<forall>y\<in>set ys. 124 \<notin> set (numberToString lib (priceOrZero y))"
  shows "deduplicateYachts lib ys =
           map ((!) ys) (filter (\<lambda>i. \<forall>j<i. \<not> sameListing lib (ys ! j) (ys ! i)) [0..<length ys])"
proof -
  have "filter (\<lambda>i. \<forall>j<i. yachtKey lib (ys ! j) \<noteq> yachtKey lib (ys ! i)) [0..<length ys]
      = filter (\<lambda>i. \<forall>j<i. \<not> sameListing lib (ys ! j) (ys ! i)) [0..<length ys]"
  proof (rule filter_cong [OF refl])
    fix i assume "i \<in> set [0..<length ys]"
    then have i: "i < length ys" by simp
    have "(yachtKey lib (ys ! j) = yachtKey lib (ys ! i)) = sameListing lib (ys ! j) (ys ! i)"
      if "j < i" for j
    proof (rule yachtKey_eq_sameListing [OF assms])
      show "ys ! j \<in> set ys" using that i by simp
      show "ys ! i \<in> set ys" using i by simp
    qed
    then show "(\<forall>j<i. yachtKey lib (ys ! j) \<noteq> yachtKey lib (ys ! i))
        = (\<forall>j<i. \<not> sameListing lib (ys ! j) (ys ! i))"
      by simp
  qed
  then show ?thesis by (simp only: deduplicateYachts_firsts)
qed

lemma sample_prices:
  "numberToString sampleLib 2850 = str ''2850''"
  "numberToString sampleLib 0 = str ''0''"
  "numberToString sampleLib 99 = str ''99''"
  "numberToString sampleLib 7 = str ''7''"
  by (simp_all add: sampleLib_def natToString.simps str_def)

lemma dup_prices: "priceOrZero ` set dupYachts = {2850, 0, 99, 7}"
  by (auto simp: dupYachts_def sampleYacht_def priceOrZero_def)

theorem deduplicateYachts_first_per_listing_witness:
  "inj_on (numberToString sampleLib) (priceOrZero ` set dupYachts)
   \<and> \<not> (\<exists>y\<in>set dupYachts. 124 \<in> set (numberToString sampleLib (priceOrZero y)))
   \<and> deduplicateYachts sampleLib dupYachts = [dupYachts ! 0, dupYachts ! 1, dupYachts ! 4]"
proof -
  have inj: "inj_on (numberToString sampleLib) (priceOrZero ` set dupYachts)"
    unfolding dup_prices by (simp add: sample_prices str_def)
  have bar: "\<forall>y\<in>set dupYachts. 124 \<notin> set (numberToString sampleLib (priceOrZero y))"
    using dup_prices by (auto simp: dupYachts_def sampleYacht_def priceOrZero_def sample_prices str_def)
  have same: "filter (\<lambda>i. \<forall>j<i. \<not> sameListing sampleLib (dupYachts ! j) (dupYachts ! i)) [0..<length dupYachts] = [0, 1, 4]"
    by (simp add: dupYachts_def sampleYacht_def sameListing_def truthyOpt_def truthy_def
          priceOrZero_def sampleLib_def asciiLower_def trim_def isSpace_def str_def
          upt_conv_Cons All_less_Suc createEmptyYacht_def)
  show ?thesis
    using deduplicateYachts_first_per_listing [OF inj bar] inj bar by (simp add: same)
qed

subsection \<open>Address resolution\<close>



end
